theory Spec2Isabelle
  imports Main "HOL-Library.Multiset" "HOL-Library.Sublist"
begin

section \<open>Strings of the host language\<close>

text \<open>
  A string is a list of characters; a character stands for a code point below 256.
  \<open>isspace\<close> is the whitespace test behind \<^verbatim>\<open>str.strip()\<close> on that range
  (tab to carriage return, the four separators 28 to 31, space, NEL and the
  no-break space), \<open>lower\<close> is \<^verbatim>\<open>str.lower()\<close> on that range.
\<close>

definition isspace :: "char \<Rightarrow> bool" where
  "isspace c =
     (let n = (of_char c :: nat)
      in (9 \<le> n \<and> n \<le> 13) \<or> (28 \<le> n \<and> n \<le> 32) \<or> n = 133 \<or> n = 160)"

definition strip :: "string \<Rightarrow> string" where
  "strip s = rev (dropWhile isspace (rev (dropWhile isspace s)))"

definition lower_char :: "char \<Rightarrow> char" where
  "lower_char c =
     (let n = (of_char c :: nat)
      in if (65 \<le> n \<and> n \<le> 90) \<or> (192 \<le> n \<and> n \<le> 222 \<and> n \<noteq> 215)
         then char_of (n + 32) else c)"

definition lower :: "string \<Rightarrow> string" where
  "lower s = map lower_char s"

definition isdigit :: "char \<Rightarrow> bool" where
  "isdigit c = (let n = (of_char c :: nat) in 48 \<le> n \<and> n \<le> 57)"

definition digit_value :: "char \<Rightarrow> int" where
  "digit_value c = int (of_char c) - 48"

text \<open>
  \<^verbatim>\<open>int(s)\<close> on a string: surrounding whitespace is dropped, one sign is allowed,
  then decimal digits, where a single underscore may stand between two digits.
  Anything else raises \<^verbatim>\<open>ValueError\<close>, which is \<open>None\<close> here. The whitespace of
  \<^verbatim>\<open>int\<close> is narrower than that of \<^verbatim>\<open>strip\<close>: the separators 28 to 31 are not
  part of it. A string of more than 4300 digits raises \<^verbatim>\<open>ValueError\<close> as well
  (the interpreter's default limit, counted without the underscores).
\<close>

definition int_space :: "char \<Rightarrow> bool" where
  "int_space c =
     (let n = (of_char c :: nat)
      in (9 \<le> n \<and> n \<le> 13) \<or> n = 32 \<or> n = 133 \<or> n = 160)"

definition int_strip :: "string \<Rightarrow> string" where
  "int_strip s = rev (dropWhile int_space (rev (dropWhile int_space s)))"

fun int_digits :: "int \<Rightarrow> string \<Rightarrow> int option" where
  "int_digits acc [] = Some acc"
| "int_digits acc [c] = (if isdigit c then Some (acc * 10 + digit_value c) else None)"
| "int_digits acc (c # d # cs) =
     (if isdigit c then int_digits (acc * 10 + digit_value c) (d # cs)
      else if c = CHR ''_'' \<and> isdigit d then int_digits (acc * 10 + digit_value d) cs
      else None)"

definition int_unsigned :: "string \<Rightarrow> int option" where
  "int_unsigned s =
     (if 4300 < length (filter isdigit s) then None
      else case s of
             [] \<Rightarrow> None
           | c # cs \<Rightarrow> if isdigit c then int_digits (digit_value c) cs else None)"

definition py_int :: "string \<Rightarrow> int option" where
  "py_int s =
     (case int_strip s of
        [] \<Rightarrow> None
      | c # cs \<Rightarrow>
          if c = CHR ''-'' then map_option uminus (int_unsigned cs)
          else if c = CHR ''+'' then int_unsigned cs
          else int_unsigned (c # cs))"


section \<open>The tables\<close>

text \<open>
  The three models of \<^verbatim>\<open>app.py\<close>. The primary key and the creation time carry a
  prefix (\<open>u_\<close>, \<open>r_\<close>, \<open>m_\<close>), the other columns keep their names. A
  \<^verbatim>\<open>datetime\<close> is an integer count of clock ticks.
\<close>

record User =
  u_id :: int
  name :: string
  email :: string
  role :: string
  bio :: string
  skills :: string
  availability :: string
  password_hash :: string
  u_created_at :: int

record MentorshipRequest =
  r_id :: int
  mentor_id :: int
  mentee_id :: int
  goal :: string
  status :: string
  r_created_at :: int

record Message =
  m_id :: int
  mentorship_id :: int
  sender_id :: int
  body :: string
  m_created_at :: int

text \<open>A table is the list of its rows in insertion order.\<close>

record database =
  users :: "User list"
  requests :: "MentorshipRequest list"
  messages :: "Message list"

text \<open>An integer primary key without a value gets one more than the largest key of the table.\<close>

definition next_id :: "int list \<Rightarrow> int" where
  "next_id ids = fold max ids 0 + 1"

text \<open>
  The store is SQLite unless configured otherwise. It takes a signed 64-bit integer as a
  query parameter; on any other integer the driver raises \<^verbatim>\<open>OverflowError\<close> before the
  query runs.
\<close>

definition sqlite_integer :: "int \<Rightarrow> bool" where
  "sqlite_integer n = (- (2 ^ 63) \<le> n \<and> n < 2 ^ 63)"

text \<open>
  The row of a table with a given primary key, if any: what \<^verbatim>\<open>Model.query.get(pk)\<close>
  returns for a key the store accepts.
\<close>

definition get_user :: "database \<Rightarrow> int \<Rightarrow> User option" where
  "get_user d i = find (\<lambda>u. u_id u = i) (users d)"

definition get_request :: "database \<Rightarrow> int \<Rightarrow> MentorshipRequest option" where
  "get_request d i = find (\<lambda>r. r_id r = i) (requests d)"

text \<open>\<^verbatim>\<open>User.query.filter_by(email=e).first()\<close>\<close>

definition user_by_email :: "database \<Rightarrow> string \<Rightarrow> User option" where
  "user_by_email d e = find (\<lambda>u. email u = e) (users d)"

text \<open>
  Committing a changed attribute of a loaded row writes it to the row with that primary key.
\<close>

definition update_request :: "database \<Rightarrow> int \<Rightarrow> (MentorshipRequest \<Rightarrow> MentorshipRequest) \<Rightarrow> database" where
  "update_request d i f = d\<lparr>requests := map (\<lambda>r. if r_id r = i then f r else r) (requests d)\<rparr>"

definition update_user :: "database \<Rightarrow> int \<Rightarrow> (User \<Rightarrow> User) \<Rightarrow> database" where
  "update_user d i f = d\<lparr>users := map (\<lambda>u. if u_id u = i then f u else u) (users d)\<rparr>"

text \<open>
  \<^verbatim>\<open>order_by(col.asc())\<close> and \<^verbatim>\<open>order_by(col.desc())\<close>: rows sorted on the column,
  rows with equal values staying in table order.
\<close>

definition order_by_asc :: "('a \<Rightarrow> int) \<Rightarrow> 'a list \<Rightarrow> 'a list" where
  "order_by_asc col rows = sort_key col rows"

definition order_by_desc :: "('a \<Rightarrow> int) \<Rightarrow> 'a list \<Rightarrow> 'a list" where
  "order_by_desc col rows = sort_key (\<lambda>x. - col x) rows"


section \<open>Requests, responses and the collaborators\<close>

datatype http_method = GET | POST

text \<open>\<^verbatim>\<open>request.form\<close>: the submitted fields in order; \<open>get\<close> takes the first value of a key.\<close>

type_synonym form = "(string \<times> string) list"

definition form_get :: "form \<Rightarrow> string \<Rightarrow> string option" where
  "form_get f k = map_of f k"

definition form_get_default :: "form \<Rightarrow> string \<Rightarrow> string \<Rightarrow> string" where
  "form_get_default f k dflt = (case map_of f k of None \<Rightarrow> dflt | Some v \<Rightarrow> v)"

text \<open>
  What a handler cannot compute by itself: the reading of \<^verbatim>\<open>datetime.utcnow()\<close> and
  the salt that \<^verbatim>\<open>pbkdf2_sha256.hash\<close> draws.
\<close>

record env =
  utcnow :: int
  salt :: string

text \<open>
  The password hashing primitive of passlib, taken as given: \<open>kdf_hash\<close> makes the hash
  string of a salt and a password, \<open>kdf_verify\<close> tells whether a password fits a hash
  string and is \<open>None\<close> on a string that is no hash of this scheme, where passlib raises
  \<^verbatim>\<open>ValueError\<close>. Before either, \<^verbatim>\<open>pbkdf2_sha256.hash\<close> and \<^verbatim>\<open>pbkdf2_sha256.verify\<close>
  raise \<^verbatim>\<open>PasswordSizeError\<close> on a password of more than 4096 characters. An exception
  is \<open>Inl\<close> of its name.
\<close>

record kdf =
  kdf_hash :: "string \<Rightarrow> string \<Rightarrow> string"
  kdf_verify :: "string \<Rightarrow> string \<Rightarrow> bool option"

definition set_password :: "kdf \<Rightarrow> string \<Rightarrow> User \<Rightarrow> string \<Rightarrow> string + User" where
  "set_password k slt u password =
     (if 4096 < length password then Inl ''PasswordSizeError''
      else Inr (u\<lparr>password_hash := kdf_hash k slt password\<rparr>))"

definition check_password :: "kdf \<Rightarrow> User \<Rightarrow> string \<Rightarrow> string + bool" where
  "check_password k u password =
     (if 4096 < length password then Inl ''PasswordSizeError''
      else case kdf_verify k password (password_hash u) of
             None \<Rightarrow> Inl ''ValueError''
           | Some fits \<Rightarrow> Inr fits)"

datatype endpoint =
    ep_index | ep_dashboard | ep_login | ep_mentorships | ep_mentorship_messages int

record stats =
  total_users :: nat
  mentor_count :: nat
  mentee_count :: nat
  active_mentorships :: nat

datatype response =
    Redirect endpoint
  | Render_index
  | Render_register
  | Render_login
  | Render_edit_profile
  | Render_dashboard "User list" "User list" "MentorshipRequest list" stats
  | Render_mentorships "User list" "MentorshipRequest list"
  | Render_messages MentorshipRequest "Message list"
  | Abort nat
  | Unhandled string

text \<open>
  The outcome of one request: the tables after it, the user id kept in the session,
  the notices flashed (text and category) and the response.
\<close>

record result =
  db :: database
  session :: "int option"
  flashes :: "(string \<times> string) list"
  response :: response

definition reply :: "database \<Rightarrow> int option \<Rightarrow> (string \<times> string) list \<Rightarrow> response \<Rightarrow> result" where
  "reply d s fl r = \<lparr>db = d, session = s, flashes = fl, response = r\<rparr>"

text \<open>
  \<^verbatim>\<open>load_user\<close> and \<^verbatim>\<open>current_user\<close>; \<^verbatim>\<open>@login_required\<close> sends a request without a
  loaded user to the login view. The id in a session is one that \<^verbatim>\<open>login_user\<close> stored
  there (the session is signed), so it is an integer the store accepts.
\<close>

definition load_user :: "database \<Rightarrow> int \<Rightarrow> User option" where
  "load_user d user_id = get_user d user_id"

definition current_user :: "database \<Rightarrow> int option \<Rightarrow> User option" where
  "current_user d s = (case s of None \<Rightarrow> None | Some user_id \<Rightarrow> load_user d user_id)"

definition login_required :: "database \<Rightarrow> int option \<Rightarrow> (User \<Rightarrow> result) \<Rightarrow> result" where
  "login_required d s view =
     (case current_user d s of
        None \<Rightarrow> reply d s [(''Please log in to access this page.'', ''message'')] (Redirect ep_login)
      | Some cu \<Rightarrow> view cu)"


section \<open>The request ledger: accept, decline, complete\<close>

text \<open>
  The bodies of the views take the loaded \<^verbatim>\<open>current_user\<close> as \<open>cu\<close>.
  \<^verbatim>\<open>get_or_404\<close> aborts with 404 when the row is missing.
\<close>

definition accept_request :: "database \<Rightarrow> int option \<Rightarrow> User \<Rightarrow> int \<Rightarrow> result" where
  "accept_request d s cu request_id =
     (case get_request d request_id of
        None \<Rightarrow> reply d s [] (Abort 404)
      | Some mentorship \<Rightarrow>
          if mentor_id mentorship \<noteq> u_id cu
          then reply d s [(''Only the assigned mentor can accept this request.'', ''error'')]
                 (Redirect ep_mentorships)
          else reply (update_request d (r_id mentorship) (\<lambda>r. r\<lparr>status := ''accepted''\<rparr>)) s
                 [(''Mentorship accepted. Start collaborating!'', ''success'')]
                 (Redirect ep_mentorships))"

definition decline_request :: "database \<Rightarrow> int option \<Rightarrow> User \<Rightarrow> int \<Rightarrow> result" where
  "decline_request d s cu request_id =
     (case get_request d request_id of
        None \<Rightarrow> reply d s [] (Abort 404)
      | Some mentorship \<Rightarrow>
          if mentor_id mentorship \<noteq> u_id cu
          then reply d s [(''Only the assigned mentor can decline this request.'', ''error'')]
                 (Redirect ep_mentorships)
          else reply (update_request d (r_id mentorship) (\<lambda>r. r\<lparr>status := ''declined''\<rparr>)) s
                 [(''Request declined.'', ''info'')]
                 (Redirect ep_mentorships))"

definition complete_request :: "database \<Rightarrow> int option \<Rightarrow> User \<Rightarrow> int \<Rightarrow> result" where
  "complete_request d s cu request_id =
     (case get_request d request_id of
        None \<Rightarrow> reply d s [] (Abort 404)
      | Some mentorship \<Rightarrow>
          if u_id cu \<notin> {mentor_id mentorship, mentee_id mentorship}
          then reply d s [(''You cannot complete an unrelated request.'', ''error'')]
                 (Redirect ep_mentorships)
          else reply (update_request d (r_id mentorship) (\<lambda>r. r\<lparr>status := ''completed''\<rparr>)) s
                 [(''Mentorship marked as completed.'', ''success'')]
                 (Redirect ep_mentorships))"


section \<open>The ledger view: listing and creating requests\<close>

text \<open>The query both \<^verbatim>\<open>dashboard\<close> and \<^verbatim>\<open>mentorships\<close> hand to their templates.\<close>

definition requests_of :: "database \<Rightarrow> User \<Rightarrow> MentorshipRequest list" where
  "requests_of d cu =
     order_by_desc r_created_at
       (filter (\<lambda>r. mentor_id r = u_id cu \<or> mentee_id r = u_id cu) (requests d))"

definition mentorships_page :: "database \<Rightarrow> int option \<Rightarrow> User \<Rightarrow> (string \<times> string) list \<Rightarrow> result" where
  "mentorships_page d s cu fl =
     reply d s fl
       (Render_mentorships (filter (\<lambda>u. role u = ''mentor'') (users d)) (requests_of d cu))"

text \<open>
  \<^verbatim>\<open>int(mentor_id)\<close> on a field that is no integer raises \<^verbatim>\<open>ValueError\<close>, and
  \<^verbatim>\<open>User.query.get\<close> on an integer the store does not take raises \<^verbatim>\<open>OverflowError\<close>.
  No handler catches either: the response is \<open>Unhandled\<close> and nothing is committed.
\<close>

definition mentorships :: "env \<Rightarrow> database \<Rightarrow> int option \<Rightarrow> User \<Rightarrow> http_method \<Rightarrow> form \<Rightarrow> result" where
  "mentorships e d s cu meth f =
     (if meth = POST then
        (let mentor_id' = form_get f ''mentor_id'';
             goal' = strip (form_get_default f ''goal'' '''')
         in case mentor_id' of
              None \<Rightarrow>
                mentorships_page d s cu
                  [(''Please select a mentor and describe your goal.'', ''error'')]
            | Some mid \<Rightarrow>
                if mid = [] \<or> goal' = [] then
                  mentorships_page d s cu
                    [(''Please select a mentor and describe your goal.'', ''error'')]
                else if role cu \<noteq> ''mentee'' then
                  mentorships_page d s cu [(''Only mentees can request mentorships.'', ''error'')]
                else
                  (case py_int mid of
                     None \<Rightarrow> reply d s [] (Unhandled ''ValueError'')
                   | Some n \<Rightarrow>
                       if \<not> sqlite_integer n then reply d s [] (Unhandled ''OverflowError'')
                       else
                       (case get_user d n of
                          None \<Rightarrow>
                            mentorships_page d s cu [(''Selected mentor is not available.'', ''error'')]
                        | Some mentor \<Rightarrow>
                            if role mentor = ''mentor'' then
                              reply
                                (d\<lparr>requests := requests d @
                                   [\<lparr>r_id = next_id (map r_id (requests d)),
                                     mentor_id = u_id mentor,
                                     mentee_id = u_id cu,
                                     goal = goal',
                                     status = ''pending'',
                                     r_created_at = utcnow e\<rparr>]\<rparr>)
                                s [(''Mentorship request created.'', ''success'')]
                                (Redirect ep_mentorships)
                            else
                              mentorships_page d s cu
                                [(''Selected mentor is not available.'', ''error'')])))
      else mentorships_page d s cu [])"


section \<open>The message log\<close>

definition messages_of :: "database \<Rightarrow> int \<Rightarrow> Message list" where
  "messages_of d i = order_by_asc m_created_at (filter (\<lambda>m. mentorship_id m = i) (messages d))"

definition mentorship_messages ::
  "env \<Rightarrow> database \<Rightarrow> int option \<Rightarrow> User \<Rightarrow> http_method \<Rightarrow> int \<Rightarrow> form \<Rightarrow> result" where
  "mentorship_messages e d s cu meth request_id f =
     (case get_request d request_id of
        None \<Rightarrow> reply d s [] (Abort 404)
      | Some mentorship \<Rightarrow>
          if u_id cu \<notin> {mentor_id mentorship, mentee_id mentorship} then
            reply d s [(''You are not part of this mentorship.'', ''error'')] (Redirect ep_mentorships)
          else if meth = POST then
            (let body' = strip (form_get_default f ''body'' '''')
             in if body' \<noteq> [] then
                  reply
                    (d\<lparr>messages := messages d @
                       [\<lparr>m_id = next_id (map m_id (messages d)),
                         mentorship_id = r_id mentorship,
                         sender_id = u_id cu,
                         body = body',
                         m_created_at = utcnow e\<rparr>]\<rparr>)
                    s [(''Message sent.'', ''success'')]
                    (Redirect (ep_mentorship_messages request_id))
                else
                  reply d s [(''Message cannot be empty.'', ''error'')]
                    (Render_messages mentorship (messages_of d (r_id mentorship))))
          else
            reply d s [] (Render_messages mentorship (messages_of d (r_id mentorship))))"


section \<open>Accounts and sessions\<close>

text \<open>
  In \<^verbatim>\<open>register\<close> the test \<^verbatim>\<open>all([name, email, role, password])\<close> fails on a missing
  role as on an empty one; the case on the role field covers the first. When
  \<^verbatim>\<open>set_password\<close> raises, the user has not been added yet and no handler catches the
  exception; in \<^verbatim>\<open>login\<close> the same holds of \<^verbatim>\<open>check_password\<close>.
\<close>

definition register :: "kdf \<Rightarrow> env \<Rightarrow> database \<Rightarrow> int option \<Rightarrow> http_method \<Rightarrow> form \<Rightarrow> result" where
  "register k e d s meth f =
     (if meth = POST then
        (let name' = strip (form_get_default f ''name'' '''');
             email' = lower (strip (form_get_default f ''email'' ''''));
             role' = form_get f ''role'';
             password = form_get_default f ''password'' ''''
         in case role' of
              None \<Rightarrow> reply d s [(''Please fill out all required fields.'', ''error'')] Render_register
            | Some rl \<Rightarrow>
                if name' = [] \<or> email' = [] \<or> rl = [] \<or> password = [] then
                  reply d s [(''Please fill out all required fields.'', ''error'')] Render_register
                else if rl \<notin> {''mentor'', ''mentee''} then
                  reply d s [(''Please choose a valid role.'', ''error'')] Render_register
                else if user_by_email d email' \<noteq> None then
                  reply d s [(''An account with that email already exists.'', ''error'')]
                    Render_register
                else
                  (case set_password k (salt e)
                          \<lparr>u_id = next_id (map u_id (users d)),
                           name = name',
                           email = email',
                           role = rl,
                           bio = '''',
                           skills = '''',
                           availability = '''',
                           password_hash = '''',
                           u_created_at = utcnow e\<rparr>
                          password of
                     Inl raised \<Rightarrow> reply d s [] (Unhandled raised)
                   | Inr user \<Rightarrow>
                       reply (d\<lparr>users := users d @ [user]\<rparr>) (Some (u_id user))
                         [(''Welcome to the mentorship community!'', ''success'')]
                         (Redirect ep_dashboard)))
      else reply d s [] Render_register)"

definition login :: "kdf \<Rightarrow> database \<Rightarrow> int option \<Rightarrow> http_method \<Rightarrow> form \<Rightarrow> result" where
  "login k d s meth f =
     (if meth = POST then
        (let email' = lower (strip (form_get_default f ''email'' ''''));
             password = form_get_default f ''password'' ''''
         in case user_by_email d email' of
              None \<Rightarrow> reply d s [(''Invalid email or password.'', ''error'')] Render_login
            | Some user \<Rightarrow>
                (case check_password k user password of
                   Inl raised \<Rightarrow> reply d s [] (Unhandled raised)
                 | Inr fits \<Rightarrow>
                     if fits then
                       reply d (Some (u_id user)) [(''Successfully signed in.'', ''success'')]
                         (Redirect ep_dashboard)
                     else reply d s [(''Invalid email or password.'', ''error'')] Render_login))
      else reply d s [] Render_login)"

definition logout :: "database \<Rightarrow> int option \<Rightarrow> User \<Rightarrow> result" where
  "logout d s cu = reply d None [(''Signed out successfully.'', ''info'')] (Redirect ep_index)"

definition index :: "database \<Rightarrow> int option \<Rightarrow> result" where
  "index d s =
     (if current_user d s \<noteq> None then reply d s [] (Redirect ep_dashboard)
      else reply d s [] Render_index)"

definition dashboard :: "database \<Rightarrow> int option \<Rightarrow> User \<Rightarrow> result" where
  "dashboard d s cu =
     (let mentors = filter (\<lambda>u. role u = ''mentor'') (users d);
          mentees = filter (\<lambda>u. role u = ''mentee'') (users d);
          my_requests = requests_of d cu;
          st = \<lparr>total_users = length (users d),
                mentor_count = length mentors,
                mentee_count = length mentees,
                active_mentorships =
                  length (filter (\<lambda>r. status r = ''accepted'') (requests d))\<rparr>
      in reply d s [] (Render_dashboard mentors mentees my_requests st))"

definition edit_profile :: "database \<Rightarrow> int option \<Rightarrow> User \<Rightarrow> http_method \<Rightarrow> form \<Rightarrow> result" where
  "edit_profile d s cu meth f =
     (if meth = POST then
        reply
          (update_user d (u_id cu)
             (\<lambda>u. u\<lparr>name := form_get_default f ''name'' (name cu),
                    bio := form_get_default f ''bio'' (bio cu),
                    skills := form_get_default f ''skills'' (skills cu),
                    availability := form_get_default f ''availability'' (availability cu)\<rparr>))
          s [(''Profile updated.'', ''success'')] (Redirect ep_dashboard)
      else reply d s [] Render_edit_profile)"


section \<open>Routing\<close>

datatype route =
    at_index | at_register | at_login | at_logout | at_dashboard | at_edit_profile
  | at_mentorships | at_accept int | at_decline int | at_complete int | at_messages int

text \<open>
  One HTTP request: where it goes, its method and form, the user id its session cookie
  carries, and what the clock and the salt generator give while it is served.
\<close>

record http_request =
  target :: route
  verb :: http_method
  form_data :: form
  cookie :: "int option"
  world :: env

text \<open>A route answers 405 to a method it was not registered for.\<close>

definition handle :: "kdf \<Rightarrow> database \<Rightarrow> http_request \<Rightarrow> result" where
  "handle k d q =
     (let s = cookie q; f = form_data q; e = world q; post = (verb q = POST);
          not_allowed = reply d s [] (Abort 405)
      in case target q of
           at_index \<Rightarrow> if post then not_allowed else index d s
         | at_register \<Rightarrow> register k e d s (verb q) f
         | at_login \<Rightarrow> login k d s (verb q) f
         | at_logout \<Rightarrow> if post then not_allowed else login_required d s (logout d s)
         | at_dashboard \<Rightarrow> if post then not_allowed else login_required d s (dashboard d s)
         | at_edit_profile \<Rightarrow> login_required d s (\<lambda>cu. edit_profile d s cu (verb q) f)
         | at_mentorships \<Rightarrow> login_required d s (\<lambda>cu. mentorships e d s cu (verb q) f)
         | at_accept i \<Rightarrow>
             if post then login_required d s (\<lambda>cu. accept_request d s cu i) else not_allowed
         | at_decline i \<Rightarrow>
             if post then login_required d s (\<lambda>cu. decline_request d s cu i) else not_allowed
         | at_complete i \<Rightarrow>
             if post then login_required d s (\<lambda>cu. complete_request d s cu i) else not_allowed
         | at_messages i \<Rightarrow>
             login_required d s (\<lambda>cu. mentorship_messages e d s cu (verb q) i f))"

text \<open>The tables after a sequence of requests, served one after the other.\<close>

fun serve :: "kdf \<Rightarrow> database \<Rightarrow> http_request list \<Rightarrow> database" where
  "serve k d [] = d"
| "serve k d (q # qs) = serve k (db (handle k d q)) qs"



section \<open>The error classes of the specification\<close>

text \<open>
  The handlers report a failure as a flashed notice of category \<open>error\<close>, or as a 404.
  \<open>notice_class\<close> gives each notice of \<^verbatim>\<open>app.py\<close> its class in the taxonomy of the
  specification; \<open>failure\<close> reads the class off a result.
\<close>

datatype error = ValidationError | ConflictError | AuthError | AuthorizationError | NotFoundError

definition notice_class :: "string \<Rightarrow> error option" where
  "notice_class msg =
     map_of
       [(''Please fill out all required fields.'', ValidationError),
        (''Please choose a valid role.'', ValidationError),
        (''An account with that email already exists.'', ConflictError),
        (''Invalid email or password.'', AuthError),
        (''Please select a mentor and describe your goal.'', ValidationError),
        (''Only mentees can request mentorships.'', AuthorizationError),
        (''Selected mentor is not available.'', ValidationError),
        (''Only the assigned mentor can accept this request.'', AuthorizationError),
        (''Only the assigned mentor can decline this request.'', AuthorizationError),
        (''You cannot complete an unrelated request.'', AuthorizationError),
        (''You are not part of this mentorship.'', AuthorizationError),
        (''Message cannot be empty.'', ValidationError)]
       msg"

definition failure :: "result \<Rightarrow> error option" where
  "failure r =
     (if response r = Abort 404 then Some NotFoundError
      else case flashes r of
             [(msg, category)] \<Rightarrow> if category = ''error'' then notice_class msg else None
           | _ \<Rightarrow> None)"


section \<open>Deleting a request\<close>

text \<open>
  Modelled from the spec: the administrative deletion of a mentorship request, which no
  view of \<^verbatim>\<open>app.py\<close> performs. The relationship \<^verbatim>\<open>MentorshipRequest.messages\<close> is declared
  with \<^verbatim>\<open>cascade="all, delete-orphan"\<close>, so deleting the request row deletes the message rows
  whose \<open>mentorship_id\<close> is its key; no other relationship of the models cascades.
  Deleting a key that has no row changes nothing.
\<close>

definition delete_request :: "database \<Rightarrow> int \<Rightarrow> database" where
  "delete_request d i =
     (case get_request d i of
        None \<Rightarrow> d
      | Some mentorship \<Rightarrow>
          d\<lparr>requests := filter (\<lambda>r. r_id r \<noteq> r_id mentorship) (requests d),
            messages := filter (\<lambda>m. mentorship_id m \<noteq> r_id mentorship) (messages d)\<rparr>)"


section \<open>A small population for concrete runs\<close>

text \<open>
  A stand-in for the hashing primitive (salt, separator, reversed password) and three
  accounts: a mentee, her mentor and a second mentor, with one request between the first two.
\<close>

definition toy_kdf :: kdf where
  "toy_kdf =
     \<lparr>kdf_hash = (\<lambda>slt pw. slt @ ''$'' @ rev pw),
      kdf_verify =
        (\<lambda>pw h. if CHR ''$'' \<in> set h
                 then Some (dropWhile (\<lambda>c. c \<noteq> CHR ''$'') h = ''$'' @ rev pw)
                 else None)\<rparr>"

definition ada :: User where
  "ada = \<lparr>u_id = 1, name = ''Ada'', email = ''ada@example.org'', role = ''mentee'',
          bio = '''', skills = '''', availability = '''',
          password_hash = ''s1$terces'', u_created_at = 1\<rparr>"

definition ben :: User where
  "ben = \<lparr>u_id = 2, name = ''Ben'', email = ''ben@example.org'', role = ''mentor'',
          bio = '''', skills = '''', availability = '''',
          password_hash = ''s2$drowssap'', u_created_at = 2\<rparr>"

definition cy :: User where
  "cy = \<lparr>u_id = 3, name = ''Cy'', email = ''cy@example.org'', role = ''mentor'',
         bio = '''', skills = '''', availability = '''',
         password_hash = ''s3$nepo'', u_created_at = 3\<rparr>"

definition ask :: MentorshipRequest where
  "ask = \<lparr>r_id = 1, mentor_id = 2, mentee_id = 1, goal = ''learn X'',
          status = ''declined'', r_created_at = 4\<rparr>"

definition town :: database where
  "town = \<lparr>users = [ada, ben, cy], requests = [ask], messages = []\<rparr>"

definition at_time :: "int \<Rightarrow> env" where
  "at_time t = \<lparr>utcnow = t, salt = ''s9''\<rparr>"

text \<open>The same town later: a second request, and messages on both.\<close>

definition plan :: MentorshipRequest where
  "plan = \<lparr>r_id = 2, mentor_id = 3, mentee_id = 1, goal = ''learn Y'',
           status = ''pending'', r_created_at = 8\<rparr>"

definition hi :: Message where
  "hi = \<lparr>m_id = 1, mentorship_id = 1, sender_id = 1, body = ''hi'', m_created_at = 5\<rparr>"

definition hello :: Message where
  "hello = \<lparr>m_id = 2, mentorship_id = 1, sender_id = 2, body = ''hello'', m_created_at = 6\<rparr>"

definition memo :: Message where
  "memo = \<lparr>m_id = 3, mentorship_id = 2, sender_id = 3, body = ''welcome'', m_created_at = 9\<rparr>"

definition forum :: database where
  "forum = \<lparr>users = [ada, ben, cy], requests = [ask, plan], messages = [hi, hello, memo]\<rparr>"


text \<open>A request form that also carries a \<open>mentee_id\<close> field, sent by the mentee with id 1.\<close>

definition forged :: http_request where
  "forged = \<lparr>target = at_mentorships, verb = POST,
             form_data = [(''mentor_id'', ''3''), (''goal'', ''learn Z''), (''mentee_id'', ''2'')],
             cookie = Some 1, world = at_time 12\<rparr>"

text \<open>Request forms: a blank goal, a mentor id that is no number, one that fits, one of nobody.\<close>

definition blank_goal :: form where
  "blank_goal = [(''mentor_id'', ''3''), (''goal'', ''  '')]"

definition bad_mentor :: form where
  "bad_mentor = [(''mentor_id'', ''abc''), (''goal'', ''learn Z'')]"

definition good_ask :: form where
  "good_ask = [(''mentor_id'', ''3''), (''goal'', '' learn Z '')]"

definition no_such :: form where
  "no_such = [(''mentor_id'', ''99''), (''goal'', ''learn Z'')]"

text \<open>Registration and login forms, and the account the fourth of them creates.\<close>

definition join_blank :: form where
  "join_blank = [(''name'', '' ''), (''email'', ''eve@example.org''), (''role'', ''mentor''),
                 (''password'', ''pw'')]"

definition join_admin :: form where
  "join_admin = [(''name'', ''Eve''), (''email'', ''eve@example.org''), (''role'', ''admin''),
                 (''password'', ''pw'')]"

definition join_ada :: form where
  "join_ada = [(''name'', ''Ada II''), (''email'', '' ADA@Example.org''), (''role'', ''mentee''),
               (''password'', ''pw'')]"

definition join_dee :: form where
  "join_dee = [(''name'', '' Dee ''), (''email'', ''Dee@Example.ORG ''), (''role'', ''mentee''),
               (''password'', ''opensesame'')]"

definition join_again :: form where
  "join_again = [(''name'', ''D''), (''email'', '' DEE@example.org''), (''role'', ''mentor''),
                 (''password'', ''other'')]"

definition dee :: User where
  "dee = \<lparr>u_id = 4, name = ''Dee'', email = ''dee@example.org'', role = ''mentee'',
          bio = '''', skills = '''', availability = '''',
          password_hash = ''s9$emasesnepo'', u_created_at = 20\<rparr>"

definition dee_login :: form where
  "dee_login = [(''email'', '' dee@EXAMPLE.org''), (''password'', ''opensesame'')]"

definition stranger_login :: form where
  "stranger_login = [(''email'', ''zed@example.org''), (''password'', ''pw'')]"

definition ada_wrong :: form where
  "ada_wrong = [(''email'', ''ada@example.org''), (''password'', ''guess'')]"

text \<open>A login and a registration with a password of 4097 characters.\<close>

definition long_guess :: form where
  "long_guess = [(''email'', ''ada@example.org''), (''password'', replicate 4097 CHR ''x'')]"

definition join_long :: form where
  "join_long = [(''name'', ''Fay''), (''email'', ''fay@example.org''), (''role'', ''mentee''),
                (''password'', replicate 4097 CHR ''x'')]"








section \<open>Facts about the tables\<close>

lemmas town_defs = town_def ada_def ben_def cy_def ask_def at_time_def forum_def plan_def
  hi_def hello_def memo_def

lemmas string_defs = strip_def isspace_def form_get_def form_get_default_def
  py_int_def int_strip_def int_space_def int_unsigned_def isdigit_def digit_value_def
  sqlite_integer_def

lemma find_map_update:
  "(\<And>r. key (g r) = key r) \<Longrightarrow>
   find (\<lambda>r. key r = i) (map (\<lambda>r. if key r = i then g r else r) xs) =
   map_option g (find (\<lambda>r. key r = i) xs)"
  by (induction xs) auto

lemma get_request_update:
  "get_request (update_request d i (\<lambda>r. r\<lparr>status := v\<rparr>)) i =
   map_option (\<lambda>r. r\<lparr>status := v\<rparr>) (get_request d i)"
  unfolding get_request_def update_request_def
  by (simp add: find_map_update)

lemma get_request_key: "get_request d i = Some m \<Longrightarrow> r_id m = i"
  unfolding get_request_def by (auto simp: find_Some_iff)

lemma get_request_town: "get_request town 1 = Some ask"
  by (simp add: get_request_def town_defs)


section \<open>Who may move a request, and where it goes\<close>

text \<open>
  C1. On an existing request, \<open>accept_request\<close> and \<open>decline_request\<close> by a caller who
  is not its mentor, and \<open>complete_request\<close> by a caller who is neither its mentor nor its
  mentee, end in an authorization error, and the tables (so the status of the request)
  are what they were.
\<close>

theorem unauthorized_transition_rejected:
  assumes "get_request d i = Some m"
  shows "(mentor_id m \<noteq> u_id cu \<longrightarrow>
            failure (accept_request d s cu i) = Some AuthorizationError \<and>
            db (accept_request d s cu i) = d \<and>
            failure (decline_request d s cu i) = Some AuthorizationError \<and>
            db (decline_request d s cu i) = d) \<and>
         (u_id cu \<noteq> mentor_id m \<and> u_id cu \<noteq> mentee_id m \<longrightarrow>
            failure (complete_request d s cu i) = Some AuthorizationError \<and>
            db (complete_request d s cu i) = d)"
  using assms
  by (simp add: accept_request_def decline_request_def complete_request_def reply_def
      failure_def notice_class_def)

theorem unauthorized_transition_rejected_witness:
  "get_request town 1 = Some ask \<and> mentor_id ask \<noteq> u_id cy \<and> mentee_id ask \<noteq> u_id cy \<and>
   failure (accept_request town (Some 3) cy 1) = Some AuthorizationError \<and>
   db (accept_request town (Some 3) cy 1) = town \<and>
   failure (decline_request town (Some 3) cy 1) = Some AuthorizationError \<and>
   db (decline_request town (Some 3) cy 1) = town \<and>
   failure (complete_request town (Some 3) cy 1) = Some AuthorizationError \<and>
   db (complete_request town (Some 3) cy 1) = town"
proof -
  have n: "mentor_id ask \<noteq> u_id cy \<and> mentee_id ask \<noteq> u_id cy"
    by (simp add: town_defs)
  from unauthorized_transition_rejected [OF get_request_town, of cy "Some 3"]
    get_request_town n
  show ?thesis by auto
qed

text \<open>
  C2. On an existing request, \<open>accept_request\<close> and \<open>decline_request\<close> by its mentor and
  \<open>complete_request\<close> by its mentor or its mentee leave the request with the status
  accepted, declined and completed, whatever its status was, and change nothing else of it.
\<close>

theorem authorized_transition_unconditional:
  assumes "get_request d i = Some m"
  shows "(mentor_id m = u_id cu \<longrightarrow>
            get_request (db (accept_request d s cu i)) i = Some (m\<lparr>status := ''accepted''\<rparr>) \<and>
            get_request (db (decline_request d s cu i)) i = Some (m\<lparr>status := ''declined''\<rparr>)) \<and>
         (u_id cu = mentor_id m \<or> u_id cu = mentee_id m \<longrightarrow>
            get_request (db (complete_request d s cu i)) i = Some (m\<lparr>status := ''completed''\<rparr>))"
  using assms get_request_key [OF assms]
  by (auto simp add: accept_request_def decline_request_def complete_request_def reply_def
      get_request_update)

theorem authorized_transition_unconditional_witness:
  "get_request town 1 = Some ask \<and> status ask = ''declined'' \<and> mentor_id ask = u_id ben \<and>
   get_request (db (accept_request town (Some 2) ben 1)) 1 = Some (ask\<lparr>status := ''accepted''\<rparr>) \<and>
   get_request (db (decline_request town (Some 2) ben 1)) 1 = Some (ask\<lparr>status := ''declined''\<rparr>) \<and>
   get_request (db (complete_request town (Some 2) ben 1)) 1 = Some (ask\<lparr>status := ''completed''\<rparr>)"
proof -
  have n: "status ask = ''declined'' \<and> mentor_id ask = u_id ben"
    by (simp add: town_defs)
  from authorized_transition_unconditional [OF get_request_town, of ben "Some 2"]
    get_request_town n
  show ?thesis by auto
qed

lemma get_request_forum: "get_request forum 1 = Some ask"
  by (simp add: get_request_def town_defs)

lemma current_user_id: "current_user d c = Some cu \<Longrightarrow> c = Some (u_id cu)"
  by (auto simp: current_user_def load_user_def get_user_def find_Some_iff split: option.splits)


section \<open>Posting to the message log\<close>

text \<open>
  C8. On an existing request, \<open>mentorship_messages\<close> answers a caller who is neither its
  mentor nor its mentee with an authorization error, whatever the method and the form;
  it answers a POST of a participant whose body is empty after trimming with a validation
  error. In both cases the tables are what they were, so no message row is added.
\<close>

theorem post_rejected:
  assumes "get_request d i = Some m"
  shows "(u_id cu \<noteq> mentor_id m \<and> u_id cu \<noteq> mentee_id m \<longrightarrow>
            failure (mentorship_messages e d s cu meth i f) = Some AuthorizationError \<and>
            db (mentorship_messages e d s cu meth i f) = d) \<and>
         ((u_id cu = mentor_id m \<or> u_id cu = mentee_id m) \<and>
            strip (form_get_default f ''body'' '''') = [] \<longrightarrow>
            failure (mentorship_messages e d s cu POST i f) = Some ValidationError \<and>
            db (mentorship_messages e d s cu POST i f) = d)"
  using assms
  by (auto simp add: mentorship_messages_def reply_def failure_def notice_class_def)

theorem post_rejected_witness:
  "get_request forum 1 = Some ask \<and> u_id cy \<noteq> mentor_id ask \<and> u_id cy \<noteq> mentee_id ask \<and>
   u_id ada = mentee_id ask \<and> strip (form_get_default [(''body'', '' '')] ''body'' '''') = [] \<and>
   failure (mentorship_messages (at_time 10) forum (Some 3) cy POST 1 [(''body'', ''hey'')]) =
     Some AuthorizationError \<and>
   db (mentorship_messages (at_time 10) forum (Some 3) cy POST 1 [(''body'', ''hey'')]) = forum \<and>
   failure (mentorship_messages (at_time 10) forum (Some 1) ada POST 1 [(''body'', '' '')]) =
     Some ValidationError \<and>
   db (mentorship_messages (at_time 10) forum (Some 1) ada POST 1 [(''body'', '' '')]) = forum"
proof -
  have a: "u_id cy \<noteq> mentor_id ask \<and> u_id cy \<noteq> mentee_id ask \<and> u_id ada = mentee_id ask"
    by (simp add: town_defs)
  have b: "strip (form_get_default [(''body'', '' '')] ''body'' '''') = []"
    by (simp add: strip_def form_get_default_def isspace_def)
  from post_rejected [OF get_request_forum, of cy "at_time 10" "Some 3" POST "[(''body'', ''hey'')]"]
    post_rejected [OF get_request_forum, of ada "at_time 10" "Some 1" POST "[(''body'', '' '')]"]
    get_request_forum a b
  show ?thesis by simp
qed


section \<open>The mentee of a new request\<close>

lemma mentorships_requests:
  "requests (db (mentorships e d s cu meth f)) = requests d \<or>
   (\<exists>r. requests (db (mentorships e d s cu meth f)) = requests d @ [r] \<and>
        mentee_id r = u_id cu \<and> status r = ''pending'')"
  by (simp add: mentorships_def mentorships_page_def reply_def Let_def split: option.splits)

text \<open>
  C10. A request to the \<open>mentorships\<close> route either leaves the request table as it was or
  appends one row, and the mentee of that row is the user loaded from the session of the
  request: no field of the form reaches \<open>mentee_id\<close>.
\<close>

theorem created_request_belongs_to_caller:
  assumes "target q = at_mentorships"
  shows "requests (db (handle k d q)) = requests d \<or>
         (\<exists>r cu. current_user d (cookie q) = Some cu \<and>
                 requests (db (handle k d q)) = requests d @ [r] \<and>
                 mentee_id r = u_id cu \<and> cookie q = Some (mentee_id r))"
proof (cases "current_user d (cookie q)")
  case None
  with assms show ?thesis
    by (simp add: handle_def login_required_def reply_def)
next
  case (Some cu)
  with assms have h: "handle k d q = mentorships (world q) d (cookie q) cu (verb q) (form_data q)"
    by (simp add: handle_def login_required_def)
  from mentorships_requests [of "world q" d "cookie q" cu "verb q" "form_data q"]
    current_user_id [OF Some] Some h
  show ?thesis by auto
qed

lemma forged_adds: "length (requests (db (handle toy_kdf town forged))) = 2"
  by (simp add: forged_def handle_def login_required_def current_user_def load_user_def get_user_def
    mentorships_def mentorships_page_def reply_def Let_def string_defs town_defs)

theorem created_request_belongs_to_caller_witness:
  "target forged = at_mentorships \<and> cookie forged = Some 1 \<and>
   (\<exists>r. requests (db (handle toy_kdf town forged)) = requests town @ [r] \<and> mentee_id r = 1)"
proof -
  have t: "target forged = at_mentorships" and c: "cookie forged = Some 1"
    by (simp_all add: forged_def)
  have n: "requests (db (handle toy_kdf town forged)) \<noteq> requests town"
    using forged_adds by (auto simp: town_defs)
  from created_request_belongs_to_caller [OF t, of toy_kdf town] n c t
  show ?thesis by auto
qed


section \<open>Deleting a request takes its messages along\<close>

text \<open>
  C9. After \<open>delete_request\<close> of an existing request, the request is gone, no message row
  refers to it, its message listing is empty, and the message listing of every other
  request is what it was.
\<close>

theorem delete_request_cascades:
  assumes "get_request d i = Some m"
  shows "get_request (delete_request d i) i = None \<and>
         filter (\<lambda>x. mentorship_id x = i) (messages (delete_request d i)) = [] \<and>
         messages_of (delete_request d i) i = [] \<and>
         (\<forall>j. j \<noteq> i \<longrightarrow> messages_of (delete_request d i) j = messages_of d j)"
proof -
  have k: "r_id m = i" using assms by (rule get_request_key)
  have a: "get_request (delete_request d i) i = None"
    using assms k by (simp add: delete_request_def get_request_def find_None_iff)
  have b: "filter (\<lambda>x. mentorship_id x = i) (messages (delete_request d i)) = []"
    using assms k by (simp add: delete_request_def filter_empty_conv)
  have c: "messages_of (delete_request d i) i = []"
    using b by (simp add: messages_of_def order_by_asc_def)
  have e: "filter (\<lambda>x. mentorship_id x = j) (messages (delete_request d i)) =
           filter (\<lambda>x. mentorship_id x = j) (messages d)" if "j \<noteq> i" for j
    using assms k that by (auto simp add: delete_request_def intro: filter_cong)
  have f: "\<forall>j. j \<noteq> i \<longrightarrow> messages_of (delete_request d i) j = messages_of d j"
    using e by (simp add: messages_of_def)
  from a b c f show ?thesis by blast
qed

theorem delete_request_cascades_witness:
  "get_request forum 1 = Some ask \<and> messages_of forum 1 = [hi, hello] \<and>
   messages_of (delete_request forum 1) 1 = [] \<and>
   messages_of (delete_request forum 1) 2 = [memo]"
proof -
  have a: "messages_of forum 1 = [hi, hello]" "messages_of forum 2 = [memo]"
    by (simp_all add: messages_of_def order_by_asc_def town_defs)
  from delete_request_cascades [OF get_request_forum] get_request_forum a
  show ?thesis by simp
qed


section \<open>The request listing\<close>

lemma sorted_desc: "sorted_wrt (\<lambda>a b. col b \<le> col a) (order_by_desc col rows)"
proof -
  have "sorted (map (\<lambda>x. - col x) (sort_key (\<lambda>x. - col x) rows))"
    by (rule sorted_sort_key)
  then show ?thesis
    by (simp add: order_by_desc_def sorted_wrt_map)
qed

text \<open>
  C6. The \<open>mentorships\<close> page and the dashboard both show \<open>requests_of\<close> for the caller:
  as a multiset it is exactly the rows of the request table whose mentor or mentee is the
  caller, and it is ordered by creation time, latest first.
\<close>

theorem listing_own_requests_newest_first:
  "response (mentorships e d s cu GET f) =
     Render_mentorships (filter (\<lambda>u. role u = ''mentor'') (users d)) (requests_of d cu) \<and>
   (\<exists>ms ts st. response (dashboard d s cu) = Render_dashboard ms ts (requests_of d cu) st) \<and>
   mset (requests_of d cu) =
     mset (filter (\<lambda>r. mentor_id r = u_id cu \<or> mentee_id r = u_id cu) (requests d)) \<and>
   sorted_wrt (\<lambda>a b. r_created_at b \<le> r_created_at a) (requests_of d cu)"
proof -
  have a: "response (mentorships e d s cu GET f) =
     Render_mentorships (filter (\<lambda>u. role u = ''mentor'') (users d)) (requests_of d cu)"
    by (simp add: mentorships_def mentorships_page_def reply_def)
  have b: "\<exists>ms ts st. response (dashboard d s cu) = Render_dashboard ms ts (requests_of d cu) st"
    by (simp add: dashboard_def reply_def Let_def)
  have c: "mset (requests_of d cu) =
     mset (filter (\<lambda>r. mentor_id r = u_id cu \<or> mentee_id r = u_id cu) (requests d))"
    by (simp add: requests_of_def order_by_desc_def)
  have e: "sorted_wrt (\<lambda>a b. r_created_at b \<le> r_created_at a) (requests_of d cu)"
    unfolding requests_of_def by (rule sorted_desc)
  from a b c e show ?thesis by blast
qed

theorem listing_own_requests_newest_first_witness:
  "requests_of forum ada = [plan, ask] \<and> requests_of forum ben = [ask] \<and>
   sorted_wrt (\<lambda>a b. r_created_at b \<le> r_created_at a) (requests_of forum ada) \<and>
   response (mentorships (at_time 10) forum (Some 2) ben GET []) = Render_mentorships [ben, cy] [ask]"
proof -
  have a: "requests_of forum ada = [plan, ask]" "requests_of forum ben = [ask]"
    by (simp_all add: requests_of_def order_by_desc_def town_defs)
  have b: "filter (\<lambda>u. role u = ''mentor'') (users forum) = [ben, cy]"
    by (simp add: town_defs)
  from listing_own_requests_newest_first [of "at_time 10" forum "Some 2" ben "[]"]
    listing_own_requests_newest_first [of "at_time 10" forum "Some 1" ada "[]"] a b
  show ?thesis by simp
qed

section \<open>Creating a request\<close>

lemma good_ask_reads:
  "form_get good_ask ''mentor_id'' = Some ''3''"
  "strip (form_get_default good_ask ''goal'' '''') = ''learn Z''"
  "form_get no_such ''mentor_id'' = Some ''99''"
  "strip (form_get_default no_such ''goal'' '''') = ''learn Z''"
  "form_get blank_goal ''mentor_id'' = Some ''3''"
  "strip (form_get_default blank_goal ''goal'' '''') = []"
  "py_int ''3'' = Some 3" "py_int ''99'' = Some 99"
  "sqlite_integer 3" "sqlite_integer 99"
  by (simp_all add: good_ask_def no_such_def blank_goal_def string_defs)

lemma town_users:
  "get_user town 3 = Some cy" "get_user town 99 = None"
  "role cy = ''mentor''" "role ada = ''mentee''" "role ben = ''mentor''"
  by (simp_all add: get_user_def town_defs)

text \<open>
  C3, as stated, fails twice. A mentor who posts a blank goal gets the validation notice,
  not the authorization one: the form is checked before the role. And a mentee who posts
  a mentor id that is no number gets no notice at all: \<^verbatim>\<open>int\<close> raises.
\<close>

theorem create_request_counterexample:
  "role ben \<noteq> ''mentee'' \<and>
   failure (mentorships (at_time 12) town (Some 2) ben POST blank_goal) = Some ValidationError \<and>
   role ada = ''mentee'' \<and>
   strip (form_get_default bad_mentor ''goal'' '''') \<noteq> [] \<and>
   form_get bad_mentor ''mentor_id'' = Some ''abc'' \<and>
   py_int ''abc'' = None \<and>
   failure (mentorships (at_time 12) town (Some 1) ada POST bad_mentor) = None \<and>
   response (mentorships (at_time 12) town (Some 1) ada POST bad_mentor) = Unhandled ''ValueError''"
  by (simp add: mentorships_def mentorships_page_def reply_def failure_def notice_class_def
      blank_goal_def bad_mentor_def string_defs town_defs)

text \<open>
  C3, amended. A POST to \<open>mentorships\<close> ends in a validation error when the mentor id is
  missing or empty or the goal is blank after trimming, whoever calls; otherwise in an
  authorization error when the caller is no mentee; otherwise, when \<^verbatim>\<open>int\<close> reads the
  mentor id as an integer and the store takes that integer as a key, in a validation error
  when no user has that id or the user is no mentor, and else it succeeds and appends
  exactly one request, pending, from the caller to that mentor. Every failure leaves the
  tables as they were. What happens when \<^verbatim>\<open>int\<close> or the store raises is left out.
\<close>

theorem create_request_outcomes:
  "(form_get f ''mentor_id'' = None \<or> form_get f ''mentor_id'' = Some [] \<or>
    strip (form_get_default f ''goal'' '''') = [] \<longrightarrow>
      failure (mentorships e d s cu POST f) = Some ValidationError \<and>
      db (mentorships e d s cu POST f) = d) \<and>
   (form_get f ''mentor_id'' = Some mid \<and> mid \<noteq> [] \<and>
    strip (form_get_default f ''goal'' '''') \<noteq> [] \<and> role cu \<noteq> ''mentee'' \<longrightarrow>
      failure (mentorships e d s cu POST f) = Some AuthorizationError \<and>
      db (mentorships e d s cu POST f) = d) \<and>
   (form_get f ''mentor_id'' = Some mid \<and> mid \<noteq> [] \<and>
    strip (form_get_default f ''goal'' '''') \<noteq> [] \<and> role cu = ''mentee'' \<and>
    py_int mid = Some n \<and> sqlite_integer n \<and>
    (get_user d n = None \<or> (get_user d n = Some u \<and> role u \<noteq> ''mentor'')) \<longrightarrow>
      failure (mentorships e d s cu POST f) = Some ValidationError \<and>
      db (mentorships e d s cu POST f) = d) \<and>
   (form_get f ''mentor_id'' = Some mid \<and> mid \<noteq> [] \<and>
    strip (form_get_default f ''goal'' '''') \<noteq> [] \<and> role cu = ''mentee'' \<and>
    py_int mid = Some n \<and> sqlite_integer n \<and>
    get_user d n = Some u \<and> role u = ''mentor'' \<longrightarrow>
      failure (mentorships e d s cu POST f) = None \<and>
      db (mentorships e d s cu POST f) =
        d\<lparr>requests := requests d @
            [\<lparr>r_id = next_id (map r_id (requests d)),
              mentor_id = u_id u,
              mentee_id = u_id cu,
              goal = strip (form_get_default f ''goal'' ''''),
              status = ''pending'',
              r_created_at = utcnow e\<rparr>]\<rparr>)"
  by (auto simp add: mentorships_def mentorships_page_def reply_def failure_def notice_class_def
      Let_def split: option.splits)

theorem create_request_outcomes_witness:
  "failure (mentorships (at_time 12) town (Some 2) ben POST blank_goal) = Some ValidationError \<and>
   db (mentorships (at_time 12) town (Some 2) ben POST blank_goal) = town \<and>
   failure (mentorships (at_time 12) town (Some 2) ben POST good_ask) = Some AuthorizationError \<and>
   db (mentorships (at_time 12) town (Some 2) ben POST good_ask) = town \<and>
   failure (mentorships (at_time 12) town (Some 1) ada POST no_such) = Some ValidationError \<and>
   db (mentorships (at_time 12) town (Some 1) ada POST no_such) = town \<and>
   failure (mentorships (at_time 12) town (Some 1) ada POST good_ask) = None \<and>
   requests (db (mentorships (at_time 12) town (Some 1) ada POST good_ask)) =
     [ask, \<lparr>r_id = 2, mentor_id = 3, mentee_id = 1, goal = ''learn Z'', status = ''pending'',
            r_created_at = 12\<rparr>]"
proof -
  have i: "next_id (map r_id (requests town)) = 2" "u_id cy = 3" "u_id ada = 1"
    "requests town = [ask]" "utcnow (at_time 12) = 12"
    by (simp_all add: next_id_def town_defs)
  from create_request_outcomes [of blank_goal "at_time 12" town "Some 2" ben "''3''" 3 cy]
    create_request_outcomes [of good_ask "at_time 12" town "Some 2" ben "''3''" 3 cy]
    create_request_outcomes [of no_such "at_time 12" town "Some 1" ada "''99''" 99 cy]
    create_request_outcomes [of good_ask "at_time 12" town "Some 1" ada "''3''" 3 cy]
    good_ask_reads town_users i
  show ?thesis by simp
qed

section \<open>Accounts: registration and login\<close>

lemma find_snoc: "find P xs = Some x \<Longrightarrow> find P (xs @ ys) = Some x"
  by (induction xs) auto

lemma find_snoc_None: "find P xs = None \<Longrightarrow> find P (xs @ ys) = find P ys"
  by (induction xs) auto

lemma find_map_same:
  "(\<And>x. P (h x) = P x) \<Longrightarrow> find P (map h xs) = map_option h (find P xs)"
  by (induction xs) auto

lemma login_required_cases:
  assumes "P (reply d s [(''Please log in to access this page.'', ''message'')] (Redirect ep_login))"
    and "\<And>cu. P (view cu)"
  shows "P (login_required d s view)"
  using assms by (simp add: login_required_def split: option.splits)

lemma db_reply: "db (reply d s fl r) = d"
  by (simp add: reply_def)

lemma users_quiet:
  "users (db (index d s)) = users d"
  "users (db (login k d s meth f)) = users d"
  "users (db (logout d s cu)) = users d"
  "users (db (dashboard d s cu)) = users d"
  "users (db (mentorships e d s cu meth f)) = users d"
  "users (db (accept_request d s cu i)) = users d"
  "users (db (decline_request d s cu i)) = users d"
  "users (db (complete_request d s cu i)) = users d"
  "users (db (mentorship_messages e d s cu meth i f)) = users d"
  by (simp_all add: index_def login_def logout_def dashboard_def mentorships_def
      mentorships_page_def accept_request_def decline_request_def complete_request_def
      mentorship_messages_def update_request_def db_reply Let_def
      split: option.splits sum.splits)

lemma users_register:
  "users (db (register k e d s meth f)) = users d \<or>
   (\<exists>u. users (db (register k e d s meth f)) = users d @ [u])"
  by (simp add: register_def set_password_def db_reply Let_def split: option.splits)

lemma users_edit_profile:
  "users (db (edit_profile d s cu meth f)) = users d \<or>
   (\<exists>i a b c v. users (db (edit_profile d s cu meth f)) =
      map (\<lambda>u. if u_id u = i then u\<lparr>name := a, bio := b, skills := c, availability := v\<rparr> else u)
        (users d))"
proof (cases meth)
  case GET
  then show ?thesis by (simp add: edit_profile_def db_reply)
next
  case POST
  then have "users (db (edit_profile d s cu meth f)) =
      map (\<lambda>u. if u_id u = u_id cu
                then u\<lparr>name := form_get_default f ''name'' (name cu),
                       bio := form_get_default f ''bio'' (bio cu),
                       skills := form_get_default f ''skills'' (skills cu),
                       availability := form_get_default f ''availability'' (availability cu)\<rparr>
                else u)
        (users d)"
    by (simp add: edit_profile_def db_reply update_user_def)
  then show ?thesis by blast
qed

lemma users_login_required:
  "(\<And>cu. users (db (view cu)) = users d) \<Longrightarrow> users (db (login_required d s view)) = users d"
  by (simp add: login_required_def db_reply split: option.splits)

lemma handle_users_quiet:
  "target q \<noteq> at_register \<Longrightarrow> target q \<noteq> at_edit_profile \<Longrightarrow>
   users (db (handle k d q)) = users d"
  by (cases "target q")
    (simp_all add: handle_def Let_def users_quiet users_login_required db_reply)

lemma handle_users:
  "users (db (handle k d q)) = users d \<or>
   (\<exists>u. users (db (handle k d q)) = users d @ [u]) \<or>
   (\<exists>i a b c v. users (db (handle k d q)) =
      map (\<lambda>u. if u_id u = i then u\<lparr>name := a, bio := b, skills := c, availability := v\<rparr> else u)
        (users d))"
proof -
  consider "target q = at_register" | "target q = at_edit_profile"
    | "target q \<noteq> at_register" "target q \<noteq> at_edit_profile"
    by blast
  then show ?thesis
  proof cases
    case 1
    then have h: "handle k d q = register k (world q) d (cookie q) (verb q) (form_data q)"
      by (simp add: handle_def Let_def)
    from users_register [of k "world q" d "cookie q" "verb q" "form_data q"]
    show ?thesis unfolding h by blast
  next
    case 2
    let ?r = "login_required d (cookie q) (\<lambda>cu. edit_profile d (cookie q) cu (verb q) (form_data q))"
    have h: "handle k d q = ?r"
      using 2 by (simp add: handle_def Let_def)
    have "users (db ?r) = users d \<or>
     (\<exists>i a b c v. users (db ?r) =
        map (\<lambda>u. if u_id u = i then u\<lparr>name := a, bio := b, skills := c, availability := v\<rparr> else u)
          (users d))"
      by (rule login_required_cases) (simp_all add: db_reply users_edit_profile)
    then show ?thesis unfolding h by blast
  next
    case 3
    then show ?thesis by (simp add: handle_users_quiet)
  qed
qed

lemma handle_keeps_email:
  assumes "user_by_email d a = Some u"
  shows "\<exists>u'. user_by_email (db (handle k d q)) a = Some u' \<and> u_id u' = u_id u \<and>
              password_hash u' = password_hash u"
proof -
  from handle_users [of k d q] consider
      (same) "users (db (handle k d q)) = users d"
    | (more) v where "users (db (handle k d q)) = users d @ [v]"
    | (edit) i n b c v where "users (db (handle k d q)) =
        map (\<lambda>u. if u_id u = i then u\<lparr>name := n, bio := b, skills := c, availability := v\<rparr> else u)
          (users d)"
    by blast
  then show ?thesis
  proof cases
    case same
    with assms show ?thesis by (simp add: user_by_email_def)
  next
    case more
    with assms show ?thesis by (simp add: user_by_email_def find_snoc)
  next
    case edit
    have "find (\<lambda>u. email u = a)
            (map (\<lambda>u. if u_id u = i then u\<lparr>name := n, bio := b, skills := c, availability := v\<rparr> else u)
               (users d)) =
          map_option (\<lambda>u. if u_id u = i then u\<lparr>name := n, bio := b, skills := c, availability := v\<rparr> else u)
            (find (\<lambda>u. email u = a) (users d))"
      by (rule find_map_same) simp
    with assms edit show ?thesis by (simp add: user_by_email_def)
  qed
qed

lemma serve_keeps_email:
  "user_by_email d a = Some u \<Longrightarrow>
   \<exists>u'. user_by_email (serve k d qs) a = Some u' \<and> u_id u' = u_id u \<and>
        password_hash u' = password_hash u"
proof (induction qs arbitrary: d u)
  case Nil
  then show ?case by simp
next
  case (Cons q qs)
  from handle_keeps_email [OF Cons.prems, of k q] obtain v where
    v: "user_by_email (db (handle k d q)) a = Some v" "u_id v = u_id u"
       "password_hash v = password_hash u"
    by blast
  from Cons.IH [OF v(1)] v(2,3) show ?case by simp
qed


lemma lower_Nil: "lower x = [] \<longleftrightarrow> x = []"
  by (simp add: lower_def)

lemma register_blank:
  assumes "strip (form_get_default f ''name'' '''') = [] \<or>
           strip (form_get_default f ''email'' '''') = [] \<or>
           form_get f ''role'' = None \<or> form_get f ''role'' = Some [] \<or>
           form_get_default f ''password'' '''' = []"
  shows "register k e d s POST f =
         reply d s [(''Please fill out all required fields.'', ''error'')] Render_register"
  using assms by (auto simp add: register_def Let_def lower_Nil split: option.splits)

lemma register_bad_role:
  assumes "form_get f ''role'' = Some rl" "rl \<noteq> ''mentor''" "rl \<noteq> ''mentee''"
  shows "register k e d s POST f =
           reply d s [(''Please fill out all required fields.'', ''error'')] Render_register \<or>
         register k e d s POST f =
           reply d s [(''Please choose a valid role.'', ''error'')] Render_register"
  using assms by (simp add: register_def Let_def)

lemma register_valid:
  assumes "strip (form_get_default f ''name'' '''') \<noteq> []"
    "strip (form_get_default f ''email'' '''') \<noteq> []"
    "form_get_default f ''password'' '''' \<noteq> []"
    "form_get f ''role'' = Some rl" "rl = ''mentor'' \<or> rl = ''mentee''"
  shows "user_by_email d (lower (strip (form_get_default f ''email'' ''''))) = Some u \<Longrightarrow>
           register k e d s POST f =
           reply d s [(''An account with that email already exists.'', ''error'')] Render_register"
    and "user_by_email d (lower (strip (form_get_default f ''email'' ''''))) = None \<Longrightarrow>
         4096 < length (form_get_default f ''password'' '''') \<Longrightarrow>
           register k e d s POST f = reply d s [] (Unhandled ''PasswordSizeError'')"
    and "user_by_email d (lower (strip (form_get_default f ''email'' ''''))) = None \<Longrightarrow>
         length (form_get_default f ''password'' '''') \<le> 4096 \<Longrightarrow>
           register k e d s POST f =
           reply
             (d\<lparr>users := users d @
                 [\<lparr>u_id = next_id (map u_id (users d)),
                   name = strip (form_get_default f ''name'' ''''),
                   email = lower (strip (form_get_default f ''email'' '''')),
                   role = rl, bio = '''', skills = '''', availability = '''',
                   password_hash = kdf_hash k (salt e) (form_get_default f ''password'' ''''),
                   u_created_at = utcnow e\<rparr>]\<rparr>)
             (Some (next_id (map u_id (users d))))
             [(''Welcome to the mentorship community!'', ''success'')]
             (Redirect ep_dashboard)"
  using assms by (auto simp add: register_def Let_def lower_Nil set_password_def)

lemma failure_notice:
  "failure (reply d s [(''Please fill out all required fields.'', ''error'')] r) =
     (if r = Abort 404 then Some NotFoundError else Some ValidationError)"
  "failure (reply d s [(''Please choose a valid role.'', ''error'')] r) =
     (if r = Abort 404 then Some NotFoundError else Some ValidationError)"
  "failure (reply d s [(''An account with that email already exists.'', ''error'')] r) =
     (if r = Abort 404 then Some NotFoundError else Some ConflictError)"
  "failure (reply d s [(''Invalid email or password.'', ''error'')] r) =
     (if r = Abort 404 then Some NotFoundError else Some AuthError)"
  by (simp_all add: failure_def reply_def notice_class_def)

lemma failure_success:
  "category \<noteq> ''error'' \<Longrightarrow> r \<noteq> Abort 404 \<Longrightarrow> failure (reply d s [(msg, category)] r) = None"
  by (simp add: failure_def reply_def)

lemma register_success:
  assumes "response (register k e d s POST f) = Redirect ep_dashboard"
  shows "\<exists>u. user_by_email (db (register k e d s POST f))
               (lower (strip (form_get_default f ''email'' ''''))) = Some u \<and>
             u_id u = next_id (map u_id (users d)) \<and>
             password_hash u = kdf_hash k (salt e) (form_get_default f ''password'' '''') \<and>
             session (register k e d s POST f) = Some (u_id u) \<and>
             length (form_get_default f ''password'' '''') \<le> 4096"
  using assms
  by (auto simp add: register_def Let_def reply_def user_by_email_def find_snoc_None
      set_password_def split: option.splits if_splits)

text \<open>
  C4. A POST to \<open>register\<close> ends in a validation error when the name or the email is
  blank after trimming, when the role or the password is missing or empty, and when the
  role is neither mentor nor mentee; with valid fields it ends in a conflict error when a
  user already has the trimmed, lower-cased email. Every failure leaves the tables as they
  were. Otherwise, with a password of at most 4096 characters, it appends one user, who
  carries that email and, as \<open>password_hash\<close>, what the hashing primitive makes of the salt
  and the password; with a longer password \<^verbatim>\<open>set_password\<close> raises, the request ends
  unhandled and the tables are as they were. Once an email is registered,
  a later registration whose email differs from it in case or surrounding blanks only, with
  valid fields otherwise, ends in a conflict error and adds nothing, whatever requests were
  served in between.
\<close>

theorem register_outcomes:
  "(strip (form_get_default f ''name'' '''') = [] \<or>
    strip (form_get_default f ''email'' '''') = [] \<or>
    form_get f ''role'' = None \<or> form_get f ''role'' = Some [] \<or>
    form_get_default f ''password'' '''' = [] \<longrightarrow>
      failure (register k e d s POST f) = Some ValidationError \<and>
      db (register k e d s POST f) = d) \<and>
   (form_get f ''role'' = Some rl \<and> rl \<noteq> ''mentor'' \<and> rl \<noteq> ''mentee'' \<longrightarrow>
      failure (register k e d s POST f) = Some ValidationError \<and>
      db (register k e d s POST f) = d) \<and>
   (strip (form_get_default f ''name'' '''') \<noteq> [] \<and>
    strip (form_get_default f ''email'' '''') \<noteq> [] \<and>
    form_get_default f ''password'' '''' \<noteq> [] \<and>
    form_get f ''role'' = Some rl \<and> (rl = ''mentor'' \<or> rl = ''mentee'') \<and>
    user_by_email d (lower (strip (form_get_default f ''email'' ''''))) = Some u \<longrightarrow>
      failure (register k e d s POST f) = Some ConflictError \<and>
      db (register k e d s POST f) = d) \<and>
   (strip (form_get_default f ''name'' '''') \<noteq> [] \<and>
    strip (form_get_default f ''email'' '''') \<noteq> [] \<and>
    form_get_default f ''password'' '''' \<noteq> [] \<and>
    form_get f ''role'' = Some rl \<and> (rl = ''mentor'' \<or> rl = ''mentee'') \<and>
    user_by_email d (lower (strip (form_get_default f ''email'' ''''))) = None \<and>
    4096 < length (form_get_default f ''password'' '''') \<longrightarrow>
      response (register k e d s POST f) = Unhandled ''PasswordSizeError'' \<and>
      db (register k e d s POST f) = d) \<and>
   (strip (form_get_default f ''name'' '''') \<noteq> [] \<and>
    strip (form_get_default f ''email'' '''') \<noteq> [] \<and>
    form_get_default f ''password'' '''' \<noteq> [] \<and>
    form_get f ''role'' = Some rl \<and> (rl = ''mentor'' \<or> rl = ''mentee'') \<and>
    user_by_email d (lower (strip (form_get_default f ''email'' ''''))) = None \<and>
    length (form_get_default f ''password'' '''') \<le> 4096 \<longrightarrow>
      failure (register k e d s POST f) = None \<and>
      response (register k e d s POST f) = Redirect ep_dashboard \<and>
      db (register k e d s POST f) =
        d\<lparr>users := users d @
            [\<lparr>u_id = next_id (map u_id (users d)),
              name = strip (form_get_default f ''name'' ''''),
              email = lower (strip (form_get_default f ''email'' '''')),
              role = rl, bio = '''', skills = '''', availability = '''',
              password_hash = kdf_hash k (salt e) (form_get_default f ''password'' ''''),
              u_created_at = utcnow e\<rparr>]\<rparr>) \<and>
   (response (register k e d s POST f) = Redirect ep_dashboard \<and>
    strip (form_get_default g ''name'' '''') \<noteq> [] \<and>
    form_get_default g ''password'' '''' \<noteq> [] \<and>
    form_get g ''role'' = Some rl \<and> (rl = ''mentor'' \<or> rl = ''mentee'') \<and>
    lower (strip (form_get_default g ''email'' '''')) =
      lower (strip (form_get_default f ''email'' '''')) \<longrightarrow>
      failure (register k e' (serve k (db (register k e d s POST f)) qs) s' POST g) =
        Some ConflictError \<and>
      db (register k e' (serve k (db (register k e d s POST f)) qs) s' POST g) =
        serve k (db (register k e d s POST f)) qs)"
proof -
  have c1: "failure (register k e d s POST f) = Some ValidationError \<and>
      db (register k e d s POST f) = d"
    if "strip (form_get_default f ''name'' '''') = [] \<or>
        strip (form_get_default f ''email'' '''') = [] \<or>
        form_get f ''role'' = None \<or> form_get f ''role'' = Some [] \<or>
        form_get_default f ''password'' '''' = []"
    using register_blank [OF that, of k e d s] by (simp add: failure_notice db_reply)
  have c2: "failure (register k e d s POST f) = Some ValidationError \<and>
      db (register k e d s POST f) = d"
    if "form_get f ''role'' = Some rl" "rl \<noteq> ''mentor''" "rl \<noteq> ''mentee''"
    using register_bad_role [OF that, of k e d s] by (auto simp add: failure_notice db_reply)
  have c3: "failure (register k e d s POST f) = Some ConflictError \<and>
      db (register k e d s POST f) = d"
    if "strip (form_get_default f ''name'' '''') \<noteq> []"
       "strip (form_get_default f ''email'' '''') \<noteq> []"
       "form_get_default f ''password'' '''' \<noteq> []"
       "form_get f ''role'' = Some rl" "rl = ''mentor'' \<or> rl = ''mentee''"
       "user_by_email d (lower (strip (form_get_default f ''email'' ''''))) = Some u"
    for f d s e rl u
    using register_valid(1) [OF that, of k e s] by (simp add: failure_notice db_reply)
  have c4: "failure (register k e d s POST f) = None \<and>
      response (register k e d s POST f) = Redirect ep_dashboard \<and>
      db (register k e d s POST f) =
        d\<lparr>users := users d @
            [\<lparr>u_id = next_id (map u_id (users d)),
              name = strip (form_get_default f ''name'' ''''),
              email = lower (strip (form_get_default f ''email'' '''')),
              role = rl, bio = '''', skills = '''', availability = '''',
              password_hash = kdf_hash k (salt e) (form_get_default f ''password'' ''''),
              u_created_at = utcnow e\<rparr>]\<rparr>"
    if "strip (form_get_default f ''name'' '''') \<noteq> []"
       "strip (form_get_default f ''email'' '''') \<noteq> []"
       "form_get_default f ''password'' '''' \<noteq> []"
       "form_get f ''role'' = Some rl" "rl = ''mentor'' \<or> rl = ''mentee''"
       "user_by_email d (lower (strip (form_get_default f ''email'' ''''))) = None"
       "length (form_get_default f ''password'' '''') \<le> 4096"
    using register_valid(3) [OF that, of k e s]
    by (simp add: failure_success db_reply) (simp add: reply_def)
  have c6: "response (register k e d s POST f) = Unhandled ''PasswordSizeError'' \<and>
      db (register k e d s POST f) = d"
    if "strip (form_get_default f ''name'' '''') \<noteq> []"
       "strip (form_get_default f ''email'' '''') \<noteq> []"
       "form_get_default f ''password'' '''' \<noteq> []"
       "form_get f ''role'' = Some rl" "rl = ''mentor'' \<or> rl = ''mentee''"
       "user_by_email d (lower (strip (form_get_default f ''email'' ''''))) = None"
       "4096 < length (form_get_default f ''password'' '''')"
    using register_valid(2) [OF that, of k e s] by (simp add: reply_def)
  have c5: "failure (register k e' (serve k (db (register k e d s POST f)) qs) s' POST g) =
        Some ConflictError \<and>
      db (register k e' (serve k (db (register k e d s POST f)) qs) s' POST g) =
        serve k (db (register k e d s POST f)) qs"
    if ok: "response (register k e d s POST f) = Redirect ep_dashboard"
      and g: "strip (form_get_default g ''name'' '''') \<noteq> []"
       "form_get_default g ''password'' '''' \<noteq> []"
       "form_get g ''role'' = Some rl" "rl = ''mentor'' \<or> rl = ''mentee''"
      and same: "lower (strip (form_get_default g ''email'' '''')) =
         lower (strip (form_get_default f ''email'' ''''))"
  proof -
    from register_success [OF ok] obtain v where
      "user_by_email (db (register k e d s POST f))
         (lower (strip (form_get_default f ''email'' ''''))) = Some v"
      by blast
    from serve_keeps_email [OF this, of k qs] same obtain w where
      w: "user_by_email (serve k (db (register k e d s POST f)) qs)
            (lower (strip (form_get_default g ''email'' ''''))) = Some w"
      by auto
    from ok have "strip (form_get_default f ''email'' '''') \<noteq> []"
      by (auto simp add: register_def Let_def reply_def lower_Nil split: option.splits if_splits)
    with same have "strip (form_get_default g ''email'' '''') \<noteq> []"
      by (metis lower_Nil)
    from c3 [OF g(1) this g(2) g(3) g(4) w] show ?thesis .
  qed
  show ?thesis
    apply (intro conjI)
    subgoal using c1 by blast
    subgoal using c2 by blast
    subgoal using c3 [of f _ d] by blast
    subgoal by (intro impI) (elim conjE, rule c6)
    subgoal by (intro impI) (elim conjE, rule c4)
    subgoal using c5 by blast
    done
qed

lemmas join_defs = join_blank_def join_admin_def join_ada_def join_dee_def join_again_def
  dee_login_def stranger_login_def ada_wrong_def long_guess_def join_long_def

lemma join_reads:
  "strip (form_get_default join_blank ''name'' '''') = []"
  "form_get join_admin ''role'' = Some ''admin''"
  "strip (form_get_default join_ada ''name'' '''') = ''Ada II''"
  "strip (form_get_default join_ada ''email'' '''') = ''ADA@Example.org''"
  "form_get_default join_ada ''password'' '''' = ''pw''"
  "form_get join_ada ''role'' = Some ''mentee''"
  "strip (form_get_default join_dee ''name'' '''') = ''Dee''"
  "strip (form_get_default join_dee ''email'' '''') = ''Dee@Example.ORG''"
  "form_get_default join_dee ''password'' '''' = ''opensesame''"
  "form_get join_dee ''role'' = Some ''mentee''"
  "strip (form_get_default join_again ''name'' '''') = ''D''"
  "strip (form_get_default join_again ''email'' '''') = ''DEE@example.org''"
  "form_get_default join_again ''password'' '''' = ''other''"
  "form_get join_again ''role'' = Some ''mentor''"
  "strip (form_get_default join_long ''name'' '''') = ''Fay''"
  "strip (form_get_default join_long ''email'' '''') = ''fay@example.org''"
  "form_get_default join_long ''password'' '''' = replicate 4097 CHR ''x''"
  "form_get join_long ''role'' = Some ''mentee''"
  by (simp_all add: join_defs string_defs)

lemma join_lower:
  "lower ''ADA@Example.org'' = ''ada@example.org'' \<and>
   lower ''Dee@Example.ORG'' = ''dee@example.org'' \<and>
   lower ''DEE@example.org'' = ''dee@example.org'' \<and>
   lower ''dee@EXAMPLE.org'' = ''dee@example.org'' \<and>
   lower ''zed@example.org'' = ''zed@example.org'' \<and>
   lower ''fay@example.org'' = ''fay@example.org'' \<and>
   lower ''ada@example.org'' = ''ada@example.org''"
  by code_simp

lemma town_emails:
  "user_by_email town ''ada@example.org'' = Some ada"
  "user_by_email town ''dee@example.org'' = None"
  "user_by_email town ''zed@example.org'' = None"
  "user_by_email town ''fay@example.org'' = None"
  by (simp_all add: user_by_email_def town_defs)

theorem register_outcomes_witness:
  "failure (register toy_kdf (at_time 20) town None POST join_blank) = Some ValidationError \<and>
   db (register toy_kdf (at_time 20) town None POST join_blank) = town \<and>
   failure (register toy_kdf (at_time 20) town None POST join_admin) = Some ValidationError \<and>
   db (register toy_kdf (at_time 20) town None POST join_admin) = town \<and>
   failure (register toy_kdf (at_time 20) town None POST join_ada) = Some ConflictError \<and>
   db (register toy_kdf (at_time 20) town None POST join_ada) = town \<and>
   failure (register toy_kdf (at_time 20) town None POST join_dee) = None \<and>
   db (register toy_kdf (at_time 20) town None POST join_dee) = town\<lparr>users := [ada, ben, cy, dee]\<rparr> \<and>
   response (register toy_kdf (at_time 20) town None POST join_long) =
     Unhandled ''PasswordSizeError'' \<and>
   db (register toy_kdf (at_time 20) town None POST join_long) = town \<and>
   failure (register toy_kdf (at_time 30)
              (serve toy_kdf (db (register toy_kdf (at_time 20) town None POST join_dee)) [forged])
              (Some 1) POST join_again) = Some ConflictError \<and>
   db (register toy_kdf (at_time 30)
         (serve toy_kdf (db (register toy_kdf (at_time 20) town None POST join_dee)) [forged])
         (Some 1) POST join_again) =
     serve toy_kdf (db (register toy_kdf (at_time 20) town None POST join_dee)) [forged]"
proof -
  have i: "next_id (map u_id (users town)) = 4" "users town = [ada, ben, cy]"
    "kdf_hash toy_kdf (salt (at_time 20)) ''opensesame'' = ''s9$emasesnepo''"
    "utcnow (at_time 20) = 20"
    by (simp_all add: next_id_def town_defs toy_kdf_def)
  have n: "''admin'' \<noteq> ''mentor''" "''admin'' \<noteq> ''mentee''"
    by simp_all
  from register_outcomes [of join_blank toy_kdf "at_time 20" town None "''mentor''" ada]
    register_outcomes [of join_admin toy_kdf "at_time 20" town None "''admin''" ada]
    register_outcomes [of join_ada toy_kdf "at_time 20" town None "''mentee''" ada]
    register_outcomes [of join_dee toy_kdf "at_time 20" town None "''mentee''" ada]
    register_outcomes [of join_long toy_kdf "at_time 20" town None "''mentee''" ada]
    register_outcomes [of join_dee toy_kdf "at_time 20" town None "''mentor''" ada join_again
      "at_time 30" "[forged]" "Some 1"]
    join_reads join_lower town_emails i n
  show ?thesis by (simp add: dee_def)
qed

lemma login_found:
  assumes "user_by_email d (lower (strip (form_get_default g ''email'' ''''))) = Some u"
    and "length (form_get_default g ''password'' '''') \<le> 4096"
  shows "kdf_verify k (form_get_default g ''password'' '''') (password_hash u) = Some True \<Longrightarrow>
           login k d c POST g =
           reply d (Some (u_id u)) [(''Successfully signed in.'', ''success'')] (Redirect ep_dashboard)"
    and "kdf_verify k (form_get_default g ''password'' '''') (password_hash u) = Some False \<Longrightarrow>
           login k d c POST g =
           reply d c [(''Invalid email or password.'', ''error'')] Render_login"
  using assms by (simp_all add: login_def Let_def check_password_def)

lemma login_unknown:
  assumes "user_by_email d (lower (strip (form_get_default g ''email'' ''''))) = None"
  shows "login k d c POST g = reply d c [(''Invalid email or password.'', ''error'')] Render_login"
  using assms by (simp add: login_def Let_def)

lemma login_reads:
  "strip (form_get_default dee_login ''email'' '''') = ''dee@EXAMPLE.org''"
  "form_get_default dee_login ''password'' '''' = ''opensesame''"
  "strip (form_get_default stranger_login ''email'' '''') = ''zed@example.org''"
  "strip (form_get_default ada_wrong ''email'' '''') = ''ada@example.org''"
  "form_get_default ada_wrong ''password'' '''' = ''guess''"
  "strip (form_get_default long_guess ''email'' '''') = ''ada@example.org''"
  "form_get_default long_guess ''password'' '''' = replicate 4097 CHR ''x''"
  by (simp_all add: join_defs string_defs)

text \<open>
  C5 does not hold of the code at a login for an existing account with a password of more
  than 4096 characters. The password does not fit the stored hash, and the claim has an
  authentication error there; \<^verbatim>\<open>check_password\<close> raises instead, the request ends
  unhandled, and no notice is flashed. Every other wrong credential gets the notice.
\<close>

theorem login_oversized_password_unhandled:
  "user_by_email town (lower (strip (form_get_default long_guess ''email'' ''''))) = Some ada \<and>
   length (form_get_default long_guess ''password'' '''') = 4097 \<and>
   kdf_verify toy_kdf (form_get_default long_guess ''password'' '''') (password_hash ada) =
     Some False \<and>
   response (login toy_kdf town None POST long_guess) = Unhandled ''PasswordSizeError'' \<and>
   flashes (login toy_kdf town None POST long_guess) = [] \<and>
   failure (login toy_kdf town None POST long_guess) = None"
proof -
  have u: "user_by_email town (lower (strip (form_get_default long_guess ''email'' ''''))) =
           Some ada"
    using login_reads join_lower town_emails by simp
  have "length ''terces'' \<noteq> length (replicate 4097 CHR ''x'')"
    by simp
  then have "''terces'' \<noteq> replicate 4097 CHR ''x''"
    by metis
  then have v: "kdf_verify toy_kdf (form_get_default long_guess ''password'' '''')
                  (password_hash ada) = Some False"
    by (simp add: login_reads toy_kdf_def town_defs)
  have r: "login toy_kdf town None POST long_guess = reply town None [] (Unhandled ''PasswordSizeError'')"
    using u by (simp add: login_def Let_def check_password_def login_reads)
  from u v r show ?thesis
    by (simp add: login_reads failure_def reply_def)
qed

text \<open>
  What does hold of \<open>login\<close>. After a successful registration, and whatever requests are
  served afterwards, a login with the same password and an email that normalises to the
  registered one succeeds and puts into the session the id the registration assigned,
  provided the hashing primitive verifies a password against its own hash. A login ends in
  an authentication error, with the session and the tables untouched, when no user has
  the normalised email, and when a password of at most 4096 characters does not fit the
  stored hash.
\<close>

theorem registered_pair_authenticates:
  "(response (register k e d s POST f) = Redirect ep_dashboard \<and>
    kdf_verify k (form_get_default f ''password'' '''')
      (kdf_hash k (salt e) (form_get_default f ''password'' '''')) = Some True \<and>
    lower (strip (form_get_default g ''email'' '''')) =
      lower (strip (form_get_default f ''email'' '''')) \<and>
    form_get_default g ''password'' '''' = form_get_default f ''password'' '''' \<longrightarrow>
      failure (login k (serve k (db (register k e d s POST f)) qs) c POST g) = None \<and>
      response (login k (serve k (db (register k e d s POST f)) qs) c POST g) =
        Redirect ep_dashboard \<and>
      session (login k (serve k (db (register k e d s POST f)) qs) c POST g) =
        session (register k e d s POST f) \<and>
      session (register k e d s POST f) = Some (next_id (map u_id (users d)))) \<and>
   (user_by_email d (lower (strip (form_get_default g ''email'' ''''))) = None \<longrightarrow>
      failure (login k d c POST g) = Some AuthError \<and>
      session (login k d c POST g) = c \<and> db (login k d c POST g) = d) \<and>
   (user_by_email d (lower (strip (form_get_default g ''email'' ''''))) = Some u \<and>
    length (form_get_default g ''password'' '''') \<le> 4096 \<and>
    kdf_verify k (form_get_default g ''password'' '''') (password_hash u) = Some False \<longrightarrow>
      failure (login k d c POST g) = Some AuthError \<and>
      session (login k d c POST g) = c \<and> db (login k d c POST g) = d)"
proof -
  let ?R = "register k e d s POST f"
  let ?D = "serve k (db ?R) qs"
  have c1: "failure (login k ?D c POST g) = None \<and>
      response (login k ?D c POST g) = Redirect ep_dashboard \<and>
      session (login k ?D c POST g) = session ?R \<and>
      session ?R = Some (next_id (map u_id (users d)))"
    if ok: "response ?R = Redirect ep_dashboard"
      and kdf: "kdf_verify k (form_get_default f ''password'' '''')
                  (kdf_hash k (salt e) (form_get_default f ''password'' '''')) = Some True"
      and same: "lower (strip (form_get_default g ''email'' '''')) =
                 lower (strip (form_get_default f ''email'' ''''))"
        "form_get_default g ''password'' '''' = form_get_default f ''password'' ''''"
  proof -
    from register_success [OF ok] obtain v where
      v: "user_by_email (db ?R) (lower (strip (form_get_default f ''email'' ''''))) = Some v"
         "u_id v = next_id (map u_id (users d))"
         "password_hash v = kdf_hash k (salt e) (form_get_default f ''password'' '''')"
         "session ?R = Some (u_id v)"
         "length (form_get_default f ''password'' '''') \<le> 4096"
      by blast
    from serve_keeps_email [OF v(1), of k qs] same(1) obtain w where
      w: "user_by_email ?D (lower (strip (form_get_default g ''email'' ''''))) = Some w"
         "u_id w = u_id v" "password_hash w = password_hash v"
      by auto
    from kdf same(2) v(3) w(3)
    have fits: "kdf_verify k (form_get_default g ''password'' '''') (password_hash w) = Some True"
      by simp
    from v(5) same(2) have size: "length (form_get_default g ''password'' '''') \<le> 4096"
      by simp
    from login_found(1) [OF w(1) size fits, of c] v(2,4) w(2) show ?thesis
      by (simp add: failure_success) (simp add: reply_def)
  qed
  have c2: "failure (login k d c POST g) = Some AuthError \<and>
      session (login k d c POST g) = c \<and> db (login k d c POST g) = d"
    if "user_by_email d (lower (strip (form_get_default g ''email'' ''''))) = None"
    using login_unknown [OF that, of k c] by (simp add: failure_notice) (simp add: reply_def)
  have c3: "failure (login k d c POST g) = Some AuthError \<and>
      session (login k d c POST g) = c \<and> db (login k d c POST g) = d"
    if "user_by_email d (lower (strip (form_get_default g ''email'' ''''))) = Some u"
       "length (form_get_default g ''password'' '''') \<le> 4096"
       "kdf_verify k (form_get_default g ''password'' '''') (password_hash u) = Some False"
    using login_found(2) [OF that, of c] by (simp add: failure_notice) (simp add: reply_def)
  from c1 c2 c3 show ?thesis by blast
qed

lemma join_dee_accepted:
  "response (register toy_kdf (at_time 20) town None POST join_dee) = Redirect ep_dashboard"
  using join_reads join_lower town_emails
  by (simp add: register_def set_password_def Let_def reply_def)

theorem registered_pair_authenticates_witness:
  "response (register toy_kdf (at_time 20) town None POST join_dee) = Redirect ep_dashboard \<and>
   response (login toy_kdf
               (serve toy_kdf (db (register toy_kdf (at_time 20) town None POST join_dee)) [forged])
               None POST dee_login) = Redirect ep_dashboard \<and>
   session (login toy_kdf
              (serve toy_kdf (db (register toy_kdf (at_time 20) town None POST join_dee)) [forged])
              None POST dee_login) = Some 4 \<and>
   failure (login toy_kdf town None POST stranger_login) = Some AuthError \<and>
   session (login toy_kdf town None POST stranger_login) = None \<and>
   failure (login toy_kdf town (Some 3) POST ada_wrong) = Some AuthError \<and>
   session (login toy_kdf town (Some 3) POST ada_wrong) = Some 3"
proof -
  have i: "next_id (map u_id (users town)) = 4"
    "kdf_verify toy_kdf ''opensesame'' (kdf_hash toy_kdf (salt (at_time 20)) ''opensesame'') =
       Some True"
    "kdf_verify toy_kdf ''guess'' (password_hash ada) = Some False"
    "length ''guess'' \<le> 4096"
    by (simp_all add: next_id_def town_defs toy_kdf_def)
  from registered_pair_authenticates [of toy_kdf "at_time 20" town None join_dee dee_login
      "[forged]" None ada]
    registered_pair_authenticates [of toy_kdf "at_time 20" town None join_dee stranger_login
      "[]" None ada]
    registered_pair_authenticates [of toy_kdf "at_time 20" town None join_dee ada_wrong
      "[]" "Some 3" ada]
    join_dee_accepted join_reads login_reads join_lower town_emails i
  show ?thesis by simp
qed

section \<open>The order of the message log\<close>



















end
